theory Spec2Isabelle
  imports Complex_Main "HOL-Library.Log_Nat"
begin

section \<open>Radioactive decay simulator (app.py)\<close>

text \<open>
  The program is a single script: a static isotope catalog, four input widgets, a block of
  calculations (the section \<^verbatim>\<open>Calculos\<close> of the script) and the rendering of the
  results. The calculations are embedded here as functions of the widget values.

  The script is embedded twice. In the first embedding Python floats are real numbers:
  \<^verbatim>\<open>math.log\<close>, \<^verbatim>\<open>np.exp\<close> and the four arithmetic operations are the functions
  \<open>ln\<close>, \<open>exp\<close>, \<open>+\<close>, \<open>-\<close>, \<open>*\<close>, \<open>/\<close> on \<open>real\<close>. The second embedding
  rounds every arithmetic result to binary64, as the interpreter does; it stops before the
  exponential, whose rounding no standard fixes. A division whose divisor is zero raises in
  Python and is an error value in both.
\<close>

subsection \<open>Errors\<close>

datatype error = ZeroDivisionError | ValueError | KeyError

subsection \<open>Constants and the isotope catalog\<close>







subsection \<open>The input widgets\<close>




subsection \<open>The time grid\<close>

text \<open>\<^verbatim>\<open>num_pts = 600\<close>\<close>

definition num_pts :: int where
  "num_pts = 600"

text \<open>
  \<^verbatim>\<open>np.linspace(start, stop, num)\<close> with its defaults (\<^verbatim>\<open>endpoint=True\<close>), following
  NumPy's implementation: a negative \<^verbatim>\<open>num\<close> raises \<^verbatim>\<open>ValueError\<close>; the samples are
  \<^verbatim>\<open>arange(0, num) * step + start\<close> with \<^verbatim>\<open>step = (stop - start) / (num - 1)\<close>; when
  the step is zero the samples are \<^verbatim>\<open>arange(0, num) / (num - 1) * (stop - start)\<close>
  instead; with fewer than two samples no step is defined and the samples are
  \<^verbatim>\<open>arange(0, num) * (stop - start)\<close>; with two samples or more the last one is overwritten
  with \<^verbatim>\<open>stop\<close>.
\<close>

definition linspace :: "real \<Rightarrow> real \<Rightarrow> int \<Rightarrow> error + real list" where
  "linspace start stop num =
     (if num < 0 then Inl ValueError
      else
        let dv = num - 1;
            delta = stop - start;
            y = map real [0..<nat num];
            y = (if dv > 0 then
                   let step = delta / real_of_int dv in
                   if step = 0 then map (\<lambda>v. v / real_of_int dv * delta) y
                   else map (\<lambda>v. v * step) y
                 else map (\<lambda>v. v * delta) y);
            y = map (\<lambda>v. v + start) y;
            y = (if num > 1 then y[nat num - 1 := stop] else y)
        in Inr y)"

subsection \<open>The calculations\<close>

text \<open>The variables the section \<^verbatim>\<open>Calculos\<close> of the script leaves behind.\<close>

record resultado =
  lam :: real
  tau :: real
  Tmax_s :: real
  Tmax_u :: real
  t_u :: "real list"
  t_s :: "real list"
  N_t :: "real list"
  A_t :: "real list"

text \<open>
  One entry of \<^verbatim>\<open>N0 * np.exp(-lam * t_s)\<close>: NumPy applies the expression to every entry
  of the array \<^verbatim>\<open>t_s\<close>.
\<close>

definition N_de :: "real \<Rightarrow> real \<Rightarrow> real \<Rightarrow> real" where
  "N_de l n0 t = n0 * exp (- l * t)"

text \<open>
  Lines 122 to 138 of the script, in order. The arguments are \<^verbatim>\<open>info["t12_s"]\<close>,
  \<^verbatim>\<open>N0\<close>, \<^verbatim>\<open>unidades[unidad_sel]\<close> and \<^verbatim>\<open>k_semividas\<close>. Each of the three
  divisions raises \<^verbatim>\<open>ZeroDivisionError\<close> on a zero divisor.
\<close>

definition calculos :: "real \<Rightarrow> real \<Rightarrow> real \<Rightarrow> real \<Rightarrow> error + resultado" where
  "calculos t12 n0 factor k =
     (if t12 = 0 then Inl ZeroDivisionError
      else
        let l = ln 2 / t12 in
        if l = 0 then Inl ZeroDivisionError
        else
          let ta = 1.0 / l;
              tmax_s = k * t12 in
          if factor = 0 then Inl ZeroDivisionError
          else
            let tmax_u = tmax_s / factor in
            case linspace 0 tmax_u num_pts of
              Inl e \<Rightarrow> Inl e
            | Inr tu \<Rightarrow>
                let ts = map (\<lambda>t. t * factor) tu;
                    nt = map (N_de l n0) ts;
                    a = map (\<lambda>n. l * n) nt
                in Inr \<lparr>lam = l, tau = ta, Tmax_s = tmax_s, Tmax_u = tmax_u,
                         t_u = tu, t_s = ts, N_t = nt, A_t = a\<rparr>)"




section \<open>The same lines in binary64 arithmetic\<close>

subsection \<open>Rounding to nearest, ties to even\<close>

text \<open>
  A Python float is an IEEE 754 binary64 number, and each of \<open>+\<close>, \<open>-\<close>, \<open>*\<close>, \<open>/\<close>
  and each decimal literal yields the binary64 number nearest to the exact result, a tie
  going to the even significand. A binary64 number is here the real number it denotes.

  \<open>exponente x\<close> is the exponent \<open>e\<close> with \<open>2 ^ 52 \<le> x / 2 ^ e < 2 ^ 53\<close>, for positive
  \<open>x\<close>: the binade of \<open>x\<close>, read off the bit length of its integer part, or of the integer
  part of its inverse when \<open>x\<close> is below 1.
\<close>

definition exponente :: "real \<Rightarrow> int" where
  "exponente x =
     (if 1 \<le> x then bitlen \<lfloor>x\<rfloor> - 53
      else
        let b = bitlen \<lfloor>1 / x\<rfloor> in
        if x * 2 powi (b + 52) < 2 ^ 53 then - (b + 52) else - (b + 51))"

text \<open>The nearest integer, a tie going to the even one.\<close>

definition redondeo :: "real \<Rightarrow> int" where
  "redondeo y =
     (let m = \<lfloor>y\<rfloor>; r = y - of_int m in
      if r < 1 / 2 then m
      else if 1 / 2 < r then m + 1
      else if even m then m else m + 1)"

text \<open>
  Rounding to 53 significant bits. The exponent is not bounded here: \<open>fl x\<close> is the
  binary64 result whenever that result is zero or a normal number (\<open>normal64\<close>), that is,
  short of overflow and of the subnormal range.
\<close>

definition fl :: "real \<Rightarrow> real" where
  "fl x =
     (if x = 0 then 0
      else
        let a = \<bar>x\<bar>; e = exponente a in
        sgn x * of_int (redondeo (a / 2 powi e)) * 2 powi e)"


subsection \<open>Constants and catalog\<close>





subsection \<open>Grid and calculations\<close>




section \<open>Lemmas on the real-valued calculations\<close>

text \<open>
  From two samples on, a grid that starts at zero is the multiples of its step; the last
  sample, overwritten with the end point, is the multiple it replaces.
\<close>

lemma linspace_cero:
  assumes "2 \<le> num"
  shows "linspace 0 T num = Inr (map (\<lambda>i. real i * (T / real_of_int (num - 1))) [0..<nat num])"
proof -
  let ?n = "nat num"
  let ?d = "real_of_int (num - 1)"
  have d: "?d = real (?n - 1)" "0 < ?d" "0 < ?n"
    using assms by (simp_all add: of_nat_diff)
  let ?y = "if T / ?d = 0 then map (\<lambda>v. v / ?d * T) (map real [0..<?n])
            else map (\<lambda>v. v * (T / ?d)) (map real [0..<?n])"
  have y: "?y = map (\<lambda>i. real i * (T / ?d)) [0..<?n]"
    by auto
  have "linspace 0 T num = Inr ((map (\<lambda>v. v + 0) ?y)[?n - 1 := T])"
    using assms by (simp add: linspace_def Let_def)
  also have "(map (\<lambda>v. v + 0) ?y)[?n - 1 := T] = (map (\<lambda>i. real i * (T / ?d)) [0..<?n])[?n - 1 := T]"
    using y by simp
  also have "\<dots> = map (\<lambda>i. real i * (T / ?d)) [0..<?n]"
  proof (rule list_update_same_conv [THEN iffD2])
    show "?n - 1 < length (map (\<lambda>i. real i * (T / ?d)) [0..<?n])"
      using d by simp
    show "map (\<lambda>i. real i * (T / ?d)) [0..<?n] ! (?n - 1) = T"
      using d by simp
  qed
  finally show ?thesis .
qed

text \<open>
  The script fails exactly on a zero half-life or a zero unit factor, and otherwise leaves
  the following values behind.
\<close>

lemma calculos_Inl:
  assumes "t12 = 0 \<or> factor = 0"
  shows "calculos t12 n0 factor k = Inl ZeroDivisionError"
  using assms by (auto simp: calculos_def Let_def)

lemma calculos_Inr:
  assumes "t12 \<noteq> 0" "factor \<noteq> 0"
  shows "calculos t12 n0 factor k =
     Inr \<lparr>lam = ln 2 / t12, tau = 1 / (ln 2 / t12), Tmax_s = k * t12,
          Tmax_u = k * t12 / factor,
          t_u = map (\<lambda>i. real i * (k * t12 / factor / 599)) [0..<600],
          t_s = map (\<lambda>i. real i * (k * t12 / factor / 599) * factor) [0..<600],
          N_t = map (\<lambda>i. N_de (ln 2 / t12) n0 (real i * (k * t12 / factor / 599) * factor)) [0..<600],
          A_t = map (\<lambda>i. ln 2 / t12 * N_de (ln 2 / t12) n0 (real i * (k * t12 / factor / 599) * factor)) [0..<600]\<rparr>"
proof -
  have g: "linspace 0 (k * t12 / factor) num_pts =
      Inr (map (\<lambda>i. real i * (k * t12 / factor / 599)) [0..<600])"
    using linspace_cero [of num_pts "k * t12 / factor"] by (simp add: num_pts_def)
  have l: "ln 2 / t12 \<noteq> 0" using assms by simp
  show ?thesis
    unfolding calculos_def Let_def using assms l by (simp add: g o_def)
qed








section \<open>Lemmas on binary64 rounding\<close>

text \<open>
  The exponent that \<open>exponente\<close> returns is the one that brings a positive number into
  \<open>[2 ^ 52, 2 ^ 53)\<close>, and it is the only one; so a rounding is evaluated by naming the
  exponent.
\<close>

lemma piso_cotas:
  fixes z :: real
  assumes "1 \<le> z"
  shows "2 powi (bitlen \<lfloor>z\<rfloor> - 1) \<le> z \<and> z < 2 powi (bitlen \<lfloor>z\<rfloor>)"
proof -
  let ?n = "\<lfloor>z\<rfloor>"
  let ?b = "bitlen ?n"
  have n: "0 < ?n" using assms by simp
  from bitlen_bounds [OF n] have lo: "2 ^ nat (?b - 1) \<le> ?n" and hi: "?n < 2 ^ nat ?b"
    by simp_all
  have b: "1 \<le> ?b" using n by (simp add: bitlen_alt_def)
  have "(of_int (2 ^ nat (?b - 1)) :: real) \<le> of_int ?n"
    using lo by (simp only: of_int_le_iff)
  also have "\<dots> \<le> z" by simp
  finally have 1: "2 powi (?b - 1) \<le> z"
    using b by (simp add: power_int_def)
  have "?n + 1 \<le> 2 ^ nat ?b" using hi by simp
  then have A: "(of_int (?n + 1) :: real) \<le> of_int (2 ^ nat ?b)"
    by (simp only: of_int_le_iff)
  have "z < of_int (?n + 1)" by simp
  from this A have "z < of_int (2 ^ nat ?b)" by (rule less_le_trans)
  then have 2: "z < 2 powi ?b"
    using b by (simp add: power_int_def)
  from 1 2 show ?thesis ..
qed

lemma desplaza:
  "2 ^ n * (2::real) powi k = 2 powi (k + int n)"
  by (simp add: power_int_add)

lemma divide_powi:
  "a / (2::real) powi k = a * 2 powi (- k)"
  by (simp add: power_int_minus divide_inverse)

lemma exponente_cotas:
  assumes "0 < x"
  shows "2 ^ 52 * 2 powi (exponente x) \<le> x \<and> x < 2 ^ 53 * 2 powi (exponente x)"
proof (cases "1 \<le> x")
  case True
  let ?b = "bitlen \<lfloor>x\<rfloor>"
  have e: "exponente x = ?b - 53" using True by (simp add: exponente_def)
  have "(2::real) ^ 52 * 2 powi (?b - 53) = 2 powi (?b - 1)"
    "(2::real) ^ 53 * 2 powi (?b - 53) = 2 powi ?b"
    using desplaza [of 52 "?b - 53"] desplaza [of 53 "?b - 53"] by simp_all
  with piso_cotas [OF True] show ?thesis unfolding e by simp
next
  case False
  let ?z = "1 / x"
  let ?b = "bitlen \<lfloor>?z\<rfloor>"
  have z: "1 \<le> ?z" using False assms by simp
  from piso_cotas [OF z] have lo: "2 powi (?b - 1) \<le> ?z" and hi: "?z < 2 powi ?b"
    by simp_all
  have p: "(0::real) < 2 powi k" for k by simp
  have xhi: "x \<le> 2 powi (1 - ?b)"
  proof -
    have "x * 2 powi (?b - 1) \<le> x * ?z" using lo assms by (intro mult_left_mono) simp_all
    then have "x * 2 powi (?b - 1) \<le> 1" using assms by simp
    then have "x \<le> 1 / 2 powi (?b - 1)" using p [of "?b - 1"] by (simp add: field_simps)
    also have "\<dots> = 2 powi (- (?b - 1))"
      using power_int_minus [of "2::real" "?b - 1"] by (simp add: inverse_eq_divide)
    finally show ?thesis by simp
  qed
  have xlo: "2 powi (- ?b) < x"
  proof -
    have "x * ?z < x * 2 powi ?b" using hi assms by (intro mult_strict_left_mono) simp_all
    then have "1 < x * 2 powi ?b" using assms by simp
    then have "1 / 2 powi ?b < x" using p [of ?b] by (simp add: field_simps)
    then show ?thesis by (simp add: power_int_minus field_simps)
  qed
  show ?thesis
  proof (cases "x * 2 powi (?b + 52) < 2 ^ 53")
    case True
    then have e: "exponente x = - (?b + 52)"
      using False by (simp add: exponente_def Let_def)
    have a: "(2::real) ^ 52 * 2 powi (- (?b + 52)) = 2 powi (- ?b)"
      using desplaza [of 52 "- (?b + 52)"] by simp
    have "x < 2 ^ 53 / 2 powi (?b + 52)"
      using True p [of "?b + 52"] by (simp add: field_simps)
    also have "\<dots> = 2 ^ 53 * 2 powi (- (?b + 52))"
      by (rule divide_powi)
    finally show ?thesis unfolding e a using xlo by simp
  next
    case c: False
    then have e: "exponente x = - (?b + 51)"
      using False by (simp add: exponente_def Let_def)
    have a: "(2::real) ^ 52 * 2 powi (- (?b + 51)) = 2 powi (1 - ?b)"
      "(2::real) ^ 53 * 2 powi (- (?b + 51)) = 2 * 2 powi (1 - ?b)"
      using desplaza [of 52 "- (?b + 51)"] desplaza [of 53 "- (?b + 51)"]
        desplaza [of 1 "1 - ?b"]
      by (simp_all add: algebra_simps)
    have "2 ^ 53 / 2 powi (?b + 52) \<le> x"
      using c p [of "?b + 52"] by (simp add: field_simps)
    moreover have "(2::real) ^ 53 / 2 powi (?b + 52) = 2 powi (1 - ?b)"
      using desplaza [of 53 "- (?b + 52)"] by (simp add: divide_powi algebra_simps)
    ultimately have "2 powi (1 - ?b) \<le> x" by simp
    moreover have "x < 2 * 2 powi (1 - ?b)" using xhi p [of "1 - ?b"] by linarith
    ultimately show ?thesis unfolding e a by simp
  qed
qed

lemma exponente_unico:
  assumes "0 < x" "2 ^ 52 * 2 powi e \<le> x" "x < 2 ^ 53 * 2 powi e"
  shows "exponente x = e"
proof -
  let ?f = "exponente x"
  from exponente_cotas [OF assms(1)]
  have lo: "2 ^ 52 * 2 powi ?f \<le> x" and hi: "x < 2 ^ 53 * 2 powi ?f" by simp_all
  have dbl: "2 * (2::real) powi a \<le> 2 powi b" if "a < b" for a b :: int
  proof -
    have "2 * (2::real) powi a = 2 powi (a + 1)" by (simp add: power_int_add)
    also have "\<dots> \<le> 2 powi b" using that by (intro power_int_increasing) simp_all
    finally show ?thesis .
  qed
  have "\<not> ?f < e"
  proof
    assume "?f < e"
    from dbl [OF this] have "2 ^ 53 * (2::real) powi ?f \<le> 2 ^ 52 * 2 powi e" by simp
    with assms(2) hi show False by simp
  qed
  moreover have "\<not> e < ?f"
  proof
    assume "e < ?f"
    from dbl [OF this] have "2 ^ 53 * (2::real) powi e \<le> 2 ^ 52 * 2 powi ?f" by simp
    with assms(3) lo show False by simp
  qed
  ultimately show ?thesis by simp
qed

lemma fl_pos:
  assumes "0 < x" "2 ^ 52 * 2 powi e \<le> x" "x < 2 ^ 53 * 2 powi e"
  shows "fl x = of_int (redondeo (x / 2 powi e)) * 2 powi e"
  using assms exponente_unico [OF assms] by (simp add: fl_def Let_def)












text \<open>
  Values of the catalog and of the calculations, each rounding evaluated with its exponent:
  the literal \<open>0.1\<close> (the float \<^verbatim>\<open>0x1.999999999999ap-4\<close>), the year, the half-life of caesium-137 with its decay constant and mean lifetime, and the
  grid point of index 30 of technetium-99m over one half-life, in seconds and in minutes.
\<close>

lemma fl_un_decimo: "fl 0.1 = 3602879701896397 / 2 ^ 55"
  by (subst fl_pos [where e = "-56"]) (simp_all add: redondeo_def Let_def)




















section \<open>The claims\<close>

text \<open>
  The hypotheses \<open>0 < t12\<close>, \<open>0 < n0\<close>, \<open>0 < factor\<close>, \<open>0 < k\<close> below are the valid
  inputs: a positive half-life in seconds, a positive initial population, a positive number
  of seconds per unit and a positive number of half-lives. Unless said otherwise a statement
  is about the real-valued embedding.
\<close>





text \<open>
  C3, as amended. The calculations contain no validation and know no invalid-parameter
  error. They fail in one way only, with Python's \<open>ZeroDivisionError\<close>, and exactly when
  the half-life or the unit factor is zero; on every other input, whatever the sign of the
  half-life, of the initial population, of the unit factor or of the number of half-lives,
  they return three sequences of 600 samples. The number of samples is the constant 600.
\<close>

theorem calculos_errores:
  "(t12 = 0 \<or> factor = 0 \<longrightarrow> calculos t12 n0 factor k = Inl ZeroDivisionError) \<and>
   (t12 \<noteq> 0 \<and> factor \<noteq> 0 \<longrightarrow>
      (\<exists>r. calculos t12 n0 factor k = Inr r \<and>
           length (t_u r) = 600 \<and> length (N_t r) = 600 \<and> length (A_t r) = 600))"
  using calculos_Inl [of t12 factor n0 k] calculos_Inr [of t12 factor n0 k] by auto

theorem calculos_errores_witness:
  "calculos 0 1 1 1 = Inl ZeroDivisionError \<and>
   calculos 21600 1 0 5 = Inl ZeroDivisionError \<and>
   (\<exists>r. calculos 21600 (- 3) 3600 (- 2) = Inr r \<and> length (N_t r) = 600)"
  using calculos_errores [of 0 1 1 1] calculos_errores [of 21600 0 1 5]
    calculos_errores [of 21600 3600 "- 3" "- 2"]
  by auto

text \<open>
  C3, as stated, fails: with an initial population of zero the calculations do not fail
  but return 600 samples, all of them zero; and a grid of one sample is returned by
  \<open>linspace\<close>, not refused.
\<close>

theorem N0_cero_counterexample:
  "\<not> isl (calculos 21600 0 3600 5) \<and>
   length (N_t (projr (calculos 21600 0 3600 5))) = 600 \<and>
   N_t (projr (calculos 21600 0 3600 5)) = replicate 600 0 \<and>
   linspace 0 5 1 = Inr [0]"
proof -
  have "calculos 21600 0 3600 5 = Inr \<lparr>lam = ln 2 / 21600, tau = 1 / (ln 2 / 21600), Tmax_s = 5 * 21600,
          Tmax_u = 5 * 21600 / 3600,
          t_u = map (\<lambda>i. real i * (5 * 21600 / 3600 / 599)) [0..<600],
          t_s = map (\<lambda>i. real i * (5 * 21600 / 3600 / 599) * 3600) [0..<600],
          N_t = map (\<lambda>i. N_de (ln 2 / 21600) 0 (real i * (5 * 21600 / 3600 / 599) * 3600)) [0..<600],
          A_t = map (\<lambda>i. ln 2 / 21600 * N_de (ln 2 / 21600) 0 (real i * (5 * 21600 / 3600 / 599) * 3600)) [0..<600]\<rparr>"
    by (rule calculos_Inr) simp_all
  moreover have "linspace 0 5 1 = Inr [0]"
    by (simp add: linspace_def Let_def)
  ultimately show ?thesis by (simp add: N_de_def map_replicate_const)
qed

















end
